theory Spec2Isabelle
  imports Main
begin

section \<open>The presence hook \<open>usePresence\<close>\<close>

text \<open>
  The development embeds \<^verbatim>\<open>packages/use-presence/src/index.tsx\<close>. The hook is a
  React function component hook: it keeps three booleans with \<^verbatim>\<open>useState\<close> and
  registers three \<^verbatim>\<open>useEffect\<close> callbacks, each with a dependency array. The
  embedding makes the parts of React the hook relies on explicit:
  \<^item> the values of the last render (the arguments \<^verbatim>\<open>isVisible\<close> and \<^verbatim>\<open>opts\<close>, and
    the three state cells) are fields of one record;
  \<^item> the dependency array every effect was committed with is kept, so that an effect
    runs again exactly when one of its dependencies differs from the committed one
    (and always on the first render);
  \<^item> the scheduler is three slots, one per effect: the pending \<^verbatim>\<open>setTimeout\<close> of the
    first effect with the delay it was given, the pending \<^verbatim>\<open>requestAnimationFrame\<close> of
    the second, the pending \<^verbatim>\<open>setTimeout\<close> of the third with its delay. The cleanup
    of an effect empties its slot (\<^verbatim>\<open>clearTimeout\<close>, \<^verbatim>\<open>cancelAnimationFrame\<close>); a
    callback that fires leaves its slot;
  \<^item> a render is followed by the cleanups of the effects whose dependencies changed,
    then by those effects, in source order; the effects read the values of that render
    and their \<^verbatim>\<open>setState\<close> calls take effect for the next render; React renders again
    while a state cell has changed.
  Two machines run the hook. In the first (\<open>act\<close>, \<open>exec\<close>) a call of the hook by its
  caller, a render that React starts after a state cell has changed, and a callback of
  the scheduler are separate steps, taken in any order: a timer may fire between the
  effect flush of one render and the render that follows. In the second (\<open>step\<close>,
  \<open>run\<close>) every call and every callback is followed by its renders before anything
  else happens; each of its runs is an execution of the first machine.

  Durations are JavaScript numbers in the source. The hook does no arithmetic on them:
  it selects them from \<^verbatim>\<open>opts\<close>, compares them as dependencies and passes them to
  \<^verbatim>\<open>setTimeout\<close>. A duration is \<^verbatim>\<open>undefined\<close> or an integer of milliseconds here,
  negative ones included. A property of \<^verbatim>\<open>opts\<close> is absent (\<open>None\<close>) or present with
  such a value, so that an object with the property set to \<^verbatim>\<open>undefined\<close> differs from
  one without the property.
\<close>

subsection \<open>Configuration\<close>

datatype js_number = Undefined | Number int

type_synonym duration = js_number

record opts =
  transitionDuration :: "js_number option"
  enterTransitionDuration :: "js_number option"
  exitTransitionDuration :: "js_number option"
  initialEnter :: "bool option"

text \<open>Property access \<^verbatim>\<open>opts.p\<close>: a property the object does not have reads as
  \<^verbatim>\<open>undefined\<close>.\<close>

definition property :: "js_number option \<Rightarrow> js_number" where
  "property p = (case p of None \<Rightarrow> Undefined | Some x \<Rightarrow> x)"

text \<open>\<^verbatim>\<open>'transitionDuration' in opts\<close>: the object has the property, whatever its
  value.\<close>

definition isSharedConfig :: "opts \<Rightarrow> bool" where
  "isSharedConfig c = (transitionDuration c \<noteq> None)"

text \<open>The three constants the hook computes from \<^verbatim>\<open>opts\<close> on every render.\<close>

definition exitTransitionDuration_of :: "opts \<Rightarrow> duration" where
  "exitTransitionDuration_of c =
     (if \<not> isSharedConfig c then property (exitTransitionDuration c)
      else property (transitionDuration c))"

definition enterTransitionDuration_of :: "opts \<Rightarrow> duration" where
  "enterTransitionDuration_of c =
     (if \<not> isSharedConfig c then property (enterTransitionDuration c)
      else property (transitionDuration c))"

text \<open>\<^verbatim>\<open>opts.initialEnter ?? false\<close>: an absent property and one set to
  \<^verbatim>\<open>undefined\<close> both give \<^verbatim>\<open>false\<close>, so both are \<open>None\<close> in the record.\<close>

definition initialEnter_of :: "opts \<Rightarrow> bool" where
  "initialEnter_of c = (case initialEnter c of None \<Rightarrow> False | Some b \<Rightarrow> b)"

subsection \<open>The hook instance\<close>

record world =
  isVisible :: bool
  opts :: opts
  animateIsVisible :: bool
  isMounted :: bool
  hasEntered :: bool
  committed_exit :: "(bool \<times> duration) option"
  committed_frame :: "(bool \<times> duration \<times> bool \<times> bool) option"
  committed_enter :: "(bool \<times> duration \<times> bool) option"
  exitTimeout :: "duration option"
  animationFrame :: bool
  enterTimeout :: "duration option"

text \<open>The derived values of a render (source lines 48 to 50) and the object it returns.\<close>

definition isExiting :: "world \<Rightarrow> bool" where
  "isExiting w = (isMounted w \<and> \<not> isVisible w)"

definition isEntering :: "world \<Rightarrow> bool" where
  "isEntering w = (isVisible w \<and> \<not> hasEntered w)"

definition isAnimating :: "world \<Rightarrow> bool" where
  "isAnimating w = (isEntering w \<or> isExiting w)"

record presence =
  out_isMounted :: bool
  out_isVisible :: bool
  out_isAnimating :: bool
  out_isEntering :: bool
  out_isExiting :: bool

definition usePresence :: "world \<Rightarrow> presence" where
  "usePresence w =
     \<lparr>out_isMounted = isMounted w,
      out_isVisible = animateIsVisible w,
      out_isAnimating = isAnimating w,
      out_isEntering = isEntering w,
      out_isExiting = isExiting w\<rparr>"

subsection \<open>Dependency arrays\<close>

definition deps_exit :: "world \<Rightarrow> bool \<times> duration" where
  "deps_exit w = (isVisible w, exitTransitionDuration_of (opts w))"

definition deps_frame :: "world \<Rightarrow> bool \<times> duration \<times> bool \<times> bool" where
  "deps_frame w =
     (animateIsVisible w, enterTransitionDuration_of (opts w), isMounted w, isVisible w)"

definition deps_enter :: "world \<Rightarrow> bool \<times> duration \<times> bool" where
  "deps_enter w = (animateIsVisible w, enterTransitionDuration_of (opts w), hasEntered w)"

subsection \<open>The three effects\<close>

text \<open>
  Each effect takes the render \<open>r\<close> whose values its closure captured and the instance
  \<open>w\<close> it acts on. The first effect (source lines 52 to 70):
\<close>

definition effect_exit :: "world \<Rightarrow> world \<Rightarrow> world" where
  "effect_exit r w =
     (if isVisible r then w\<lparr>isMounted := True\<rparr>
      else w\<lparr>hasEntered := False, animateIsVisible := False,
             exitTimeout := Some (exitTransitionDuration_of (opts r))\<rparr>)"

definition cleanup_exit :: "world \<Rightarrow> world" where
  "cleanup_exit w = w\<lparr>exitTimeout := None\<rparr>"

text \<open>
  The second effect (source lines 72 to 88). The read of
  \<^verbatim>\<open>document.body.offsetHeight\<close> changes nothing of the instance; its guard is
  modelled on its own below.
\<close>

definition effect_frame :: "world \<Rightarrow> world \<Rightarrow> world" where
  "effect_frame r w =
     (if isVisible r \<and> isMounted r \<and> \<not> animateIsVisible r
      then w\<lparr>animationFrame := True\<rparr> else w)"

definition cleanup_frame :: "world \<Rightarrow> world" where
  "cleanup_frame w = w\<lparr>animationFrame := False\<rparr>"

text \<open>The third effect (source lines 90 to 100).\<close>

definition effect_enter :: "world \<Rightarrow> world \<Rightarrow> world" where
  "effect_enter r w =
     (if animateIsVisible r \<and> \<not> hasEntered r
      then w\<lparr>enterTimeout := Some (enterTransitionDuration_of (opts r))\<rparr> else w)"

definition cleanup_enter :: "world \<Rightarrow> world" where
  "cleanup_enter w = w\<lparr>enterTimeout := None\<rparr>"

subsection \<open>Rendering\<close>

text \<open>
  One render with its effect flush: the dependency arrays of the render are committed,
  the cleanups of the effects that run again come first, then the effects themselves.
\<close>

definition render_pass :: "world \<Rightarrow> world" where
  "render_pass r =
     (let run_exit = (committed_exit r \<noteq> Some (deps_exit r));
          run_frame = (committed_frame r \<noteq> Some (deps_frame r));
          run_enter = (committed_enter r \<noteq> Some (deps_enter r));
          w0 = r\<lparr>committed_exit := Some (deps_exit r),
                 committed_frame := Some (deps_frame r),
                 committed_enter := Some (deps_enter r)\<rparr>;
          w1 = (if run_exit then cleanup_exit w0 else w0);
          w2 = (if run_frame then cleanup_frame w1 else w1);
          w3 = (if run_enter then cleanup_enter w2 else w2);
          w4 = (if run_exit then effect_exit r w3 else w3);
          w5 = (if run_frame then effect_frame r w4 else w4);
          w6 = (if run_enter then effect_enter r w5 else w5)
      in w6)"

definition cells :: "world \<Rightarrow> bool \<times> bool \<times> bool" where
  "cells w = (animateIsVisible w, isMounted w, hasEntered w)"

text \<open>React renders again as long as an effect has changed a state cell.\<close>

function settle :: "world \<Rightarrow> world" where
  "settle w = (let w' = render_pass w in if cells w' = cells w then w' else settle w')"
  by pat_completeness auto
termination
proof (relation "measure (\<lambda>w. if committed_exit w = Some (deps_exit w) then 0 else 1)")
  show "wf (measure (\<lambda>w. if committed_exit w = Some (deps_exit w) then 0 else (1::nat)))"
    by simp
next
  fix w w'
  assume "w' = render_pass w" and "cells w' \<noteq> cells w"
  then show "(w', w) \<in> measure (\<lambda>w. if committed_exit w = Some (deps_exit w) then 0 else 1)"
    by (auto simp: render_pass_def cells_def deps_exit_def deps_frame_def deps_enter_def
        effect_exit_def effect_frame_def effect_enter_def
        cleanup_exit_def cleanup_frame_def cleanup_enter_def Let_def split: if_splits)
qed

declare settle.simps [simp del]

subsection \<open>Construction, evaluation and callbacks\<close>

text \<open>
  The first render takes the initial values of the three \<^verbatim>\<open>useState\<close> cells (source
  lines 39 to 46); no effect has been committed and nothing is scheduled.
\<close>

definition init :: "bool \<Rightarrow> opts \<Rightarrow> world" where
  "init v c =
     \<lparr>isVisible = v, opts = c,
      animateIsVisible = (if initialEnter_of c then False else v),
      isMounted = v,
      hasEntered = (if initialEnter_of c then False else v),
      committed_exit = None, committed_frame = None, committed_enter = None,
      exitTimeout = None, animationFrame = False, enterTimeout = None\<rparr>"

definition mount :: "bool \<Rightarrow> opts \<Rightarrow> world" where
  "mount v c = settle (init v c)"

text \<open>A later call of the hook: the state cells are kept, the arguments are new.\<close>

definition evaluate :: "bool \<Rightarrow> opts \<Rightarrow> world \<Rightarrow> world" where
  "evaluate v c w = settle (w\<lparr>isVisible := v, opts := c\<rparr>)"

text \<open>
  The three callbacks the effects hand to the scheduler. A callback runs only while it
  is pending; it sets its state cell and React renders again.
\<close>

datatype callback = AnimationFrame | EnterTimeout | ExitTimeout

fun fire :: "callback \<Rightarrow> world \<Rightarrow> world" where
  "fire AnimationFrame w =
     (if animationFrame w
      then settle (w\<lparr>animationFrame := False, animateIsVisible := True\<rparr>) else w)"
| "fire EnterTimeout w =
     (case enterTimeout w of None \<Rightarrow> w
      | Some d \<Rightarrow> settle (w\<lparr>enterTimeout := None, hasEntered := True\<rparr>))"
| "fire ExitTimeout w =
     (case exitTimeout w of None \<Rightarrow> w
      | Some d \<Rightarrow> settle (w\<lparr>exitTimeout := None, isMounted := False\<rparr>))"

datatype event = Evaluate bool opts | Fired callback

fun step :: "event \<Rightarrow> world \<Rightarrow> world" where
  "step (Evaluate v c) w = evaluate v c w"
| "step (Fired cb) w = fire cb w"

definition run :: "event list \<Rightarrow> world \<Rightarrow> world" where
  "run evs w = fold step evs w"

subsection \<open>Renders and callbacks as separate steps\<close>

text \<open>
  What a callback does when the scheduler runs it: it leaves its slot and sets its state
  cell. React renders afterwards, not within the callback.
\<close>

fun callback_body :: "callback \<Rightarrow> world \<Rightarrow> world" where
  "callback_body AnimationFrame w =
     (if animationFrame w then w\<lparr>animationFrame := False, animateIsVisible := True\<rparr>
      else w)"
| "callback_body EnterTimeout w =
     (case enterTimeout w of None \<Rightarrow> w
      | Some d \<Rightarrow> w\<lparr>enterTimeout := None, hasEntered := True\<rparr>)"
| "callback_body ExitTimeout w =
     (case exitTimeout w of None \<Rightarrow> w
      | Some d \<Rightarrow> w\<lparr>exitTimeout := None, isMounted := False\<rparr>)"

text \<open>
  A step is a call of the hook with new arguments (one render with its effect flush),
  a further render by React (which changes nothing when no state cell has changed
  since the last one), or a callback. The first render of an instance starts from the
  initial state cells.
\<close>

datatype action = Call bool opts | Rerender | Callback callback

fun act :: "action \<Rightarrow> world \<Rightarrow> world" where
  "act (Call v c) w = render_pass (w\<lparr>isVisible := v, opts := c\<rparr>)"
| "act Rerender w = render_pass w"
| "act (Callback cb) w = callback_body cb w"

definition exec :: "action list \<Rightarrow> world \<Rightarrow> world" where
  "exec acts w = fold act acts w"

definition first_render :: "bool \<Rightarrow> opts \<Rightarrow> world" where
  "first_render v c = render_pass (init v c)"

text \<open>The steps an event of the second machine stands for.\<close>

fun schedule :: "event \<Rightarrow> action list" where
  "schedule (Evaluate v c) = [Call v c, Rerender]"
| "schedule (Fired cb) = [Callback cb, Rerender, Rerender]"

text \<open>The two shapes of configuration object a caller writes, as object literals.\<close>

definition shared_config :: "int \<Rightarrow> opts" where
  "shared_config d =
     \<lparr>transitionDuration = Some (Number d), enterTransitionDuration = None,
      exitTransitionDuration = None, initialEnter = None\<rparr>"

definition separate_config :: "int \<Rightarrow> int \<Rightarrow> opts" where
  "separate_config e x =
     \<lparr>transitionDuration = None, enterTransitionDuration = Some (Number e),
      exitTransitionDuration = Some (Number x), initialEnter = None\<rparr>"

subsection \<open>The guard of the forced reflow\<close>

text \<open>
  Source lines 74 to 78: \<^verbatim>\<open>if (typeof document !== undefined) { document.body.offsetHeight; }\<close>.
  \<^verbatim>\<open>typeof\<close> yields a string, also for an identifier that is not declared;
  \<^verbatim>\<open>!==\<close> compares without conversion, so values of different types differ. Reading
  \<^verbatim>\<open>document.body\<close> where \<^verbatim>\<open>document\<close> is not declared throws a ReferenceError.
\<close>

datatype environment = Browser | NoDocument

datatype js_value = JSUndefined | JSString string

definition typeof_document :: "environment \<Rightarrow> js_value" where
  "typeof_document env =
     (case env of Browser \<Rightarrow> JSString ''object'' | NoDocument \<Rightarrow> JSString ''undefined'')"

definition strict_not_equal :: "js_value \<Rightarrow> js_value \<Rightarrow> bool" where
  "strict_not_equal a b = (a \<noteq> b)"

definition reflow_guard :: "environment \<Rightarrow> bool" where
  "reflow_guard env = strict_not_equal (typeof_document env) JSUndefined"

datatype reflow = Flushed | ReferenceError | Skipped

definition force_reflow :: "environment \<Rightarrow> reflow" where
  "force_reflow env =
     (if reflow_guard env
      then (case env of Browser \<Rightarrow> Flushed | NoDocument \<Rightarrow> ReferenceError)
      else Skipped)"

subsection \<open>The invariant of a quiescent instance\<close>

text \<open>
  Between two events every effect is committed with the dependencies of the last render,
  and the scheduler's slots are determined by the arguments and the state cells: a
  frame is requested exactly while the element is asked for and not yet shown, the enter
  timeout runs exactly while the element is shown and has not entered, and an exit
  timeout runs only while the element is not asked for, always while it is still
  mounted then.
\<close>

definition quiescent :: "world \<Rightarrow> bool" where
  "quiescent w =
     (committed_exit w = Some (deps_exit w) \<and>
      committed_frame w = Some (deps_frame w) \<and>
      committed_enter w = Some (deps_enter w) \<and>
      animationFrame w = (isVisible w \<and> \<not> animateIsVisible w) \<and>
      enterTimeout w =
        (if animateIsVisible w \<and> \<not> hasEntered w
         then Some (enterTransitionDuration_of (opts w)) else None) \<and>
      (if isVisible w then isMounted w \<and> exitTimeout w = None
       else \<not> animateIsVisible w \<and>
            (if isMounted w then exitTimeout w = Some (exitTransitionDuration_of (opts w))
             else exitTimeout w = None \<or>
                  exitTimeout w = Some (exitTransitionDuration_of (opts w)))) \<and>
      (if hasEntered w then animateIsVisible w else True))"

subsection \<open>Misuse, in the words of the specification\<close>

text \<open>
  The hook has no check of its configuration. The specification names two kinds of
  misuse: a negative duration, and a missing required duration field (neither the
  shared duration nor the complete pair). The predicate follows those words; the hook
  itself never evaluates it.
\<close>

fun negative :: "js_number option \<Rightarrow> bool" where
  "negative (Some (Number d)) = (d < 0)"
| "negative (Some Undefined) = False"
| "negative None = False"

definition negative_duration :: "opts \<Rightarrow> bool" where
  "negative_duration c =
     (negative (transitionDuration c) \<or> negative (enterTransitionDuration c) \<or>
      negative (exitTransitionDuration c))"

definition missing_duration :: "opts \<Rightarrow> bool" where
  "missing_duration c =
     (transitionDuration c = None \<and>
      (enterTransitionDuration c = None \<or> exitTransitionDuration c = None))"

definition spec_misuse :: "opts \<Rightarrow> bool" where
  "spec_misuse c = (negative_duration c \<or> missing_duration c)"

text \<open>The object literal \<^verbatim>\<open>{}\<close>, with no duration at all.\<close>

definition no_config :: opts where
  "no_config =
     \<lparr>transitionDuration = None, enterTransitionDuration = None,
      exitTransitionDuration = None, initialEnter = None\<rparr>"

section \<open>Properties\<close>

subsection \<open>What one render does to every field\<close>

lemmas effect_defs = effect_exit_def effect_frame_def effect_enter_def
  cleanup_exit_def cleanup_frame_def cleanup_enter_def

lemma render_pass_isVisible: "isVisible (render_pass r) = isVisible r"
  by (simp add: render_pass_def Let_def effect_defs)

lemma render_pass_opts: "opts (render_pass r) = opts r"
  by (simp add: render_pass_def Let_def effect_defs)

lemma render_pass_isMounted:
  "isMounted (render_pass r) =
     (isMounted r \<or> committed_exit r \<noteq> Some (deps_exit r) \<and> isVisible r)"
  by (simp add: render_pass_def Let_def effect_defs)

lemma render_pass_animateIsVisible:
  "animateIsVisible (render_pass r) =
     (animateIsVisible r \<and> (committed_exit r = Some (deps_exit r) \<or> isVisible r))"
  by (simp add: render_pass_def Let_def effect_defs)

lemma render_pass_hasEntered:
  "hasEntered (render_pass r) =
     (hasEntered r \<and> (committed_exit r = Some (deps_exit r) \<or> isVisible r))"
  by (simp add: render_pass_def Let_def effect_defs)

lemma render_pass_committed:
  "committed_exit (render_pass r) = Some (deps_exit r)"
  "committed_frame (render_pass r) = Some (deps_frame r)"
  "committed_enter (render_pass r) = Some (deps_enter r)"
  by (simp_all add: render_pass_def Let_def effect_defs)

lemma render_pass_exitTimeout:
  "exitTimeout (render_pass r) =
     (if committed_exit r = Some (deps_exit r) then exitTimeout r
      else if isVisible r then None else Some (exitTransitionDuration_of (opts r)))"
  by (simp add: render_pass_def Let_def effect_defs)

lemma render_pass_animationFrame:
  "animationFrame (render_pass r) =
     (if committed_frame r = Some (deps_frame r) then animationFrame r
      else isVisible r \<and> isMounted r \<and> \<not> animateIsVisible r)"
  by (simp add: render_pass_def Let_def effect_defs)

lemma render_pass_enterTimeout:
  "enterTimeout (render_pass r) =
     (if committed_enter r = Some (deps_enter r) then enterTimeout r
      else if animateIsVisible r \<and> \<not> hasEntered r
           then Some (enterTransitionDuration_of (opts r)) else None)"
  by (simp add: render_pass_def Let_def effect_defs)

lemmas render_pass_fields = render_pass_isVisible render_pass_opts render_pass_isMounted
  render_pass_animateIsVisible render_pass_hasEntered render_pass_committed
  render_pass_exitTimeout render_pass_animationFrame render_pass_enterTimeout

text \<open>
  A render never unmounts and never shows or enters: what holds of an unmounted
  instance before a render of the loop holds after it.
\<close>

lemma render_pass_keeps_exited:
  assumes "isMounted w \<or> \<not> animateIsVisible w \<and> \<not> hasEntered w"
  shows "isMounted (render_pass w) \<or>
         \<not> animateIsVisible (render_pass w) \<and> \<not> hasEntered (render_pass w)"
  using assms
  by (auto simp: render_pass_isMounted render_pass_animateIsVisible render_pass_hasEntered)

lemma render_pass_deps_exit: "deps_exit (render_pass r) = deps_exit r"
  by (simp add: deps_exit_def render_pass_isVisible render_pass_opts)

lemma cells_render_pass_stable:
  "committed_exit w = Some (deps_exit w) \<Longrightarrow> cells (render_pass w) = cells w"
  by (simp add: cells_def render_pass_isMounted render_pass_animateIsVisible
      render_pass_hasEntered)

lemma settle_stable:
  "committed_exit w = Some (deps_exit w) \<Longrightarrow> settle w = render_pass w"
  by (subst settle.simps) (simp add: cells_render_pass_stable Let_def)

lemma settle_unfold:
  "settle w =
     (if cells (render_pass w) = cells w then render_pass w
      else render_pass (render_pass w))"
proof -
  have "settle (render_pass w) = render_pass (render_pass w)"
    by (rule settle_stable) (simp add: render_pass_committed render_pass_deps_exit)
  then show ?thesis
    by (subst settle.simps) (simp add: Let_def)
qed

subsection \<open>Every reachable instance is quiescent\<close>

lemmas deps_defs = deps_exit_def deps_frame_def deps_enter_def

lemma quiescent_evaluate: "quiescent w \<Longrightarrow> quiescent (evaluate v c w)"
  unfolding quiescent_def evaluate_def settle_unfold
  by (auto simp: render_pass_fields cells_def deps_defs split: if_splits)

lemma quiescent_mount: "quiescent (mount v c)"
  unfolding quiescent_def mount_def settle_unfold
  by (auto simp: render_pass_fields cells_def deps_defs init_def split: if_splits)

lemma quiescent_fire: "quiescent w \<Longrightarrow> quiescent (fire cb w)"
proof (cases cb)
  case AnimationFrame
  assume "quiescent w"
  then show ?thesis
    unfolding AnimationFrame fire.simps quiescent_def settle_unfold
    by (auto simp: render_pass_fields cells_def deps_defs split: if_splits)
next
  case EnterTimeout
  assume "quiescent w"
  then show ?thesis
    unfolding EnterTimeout fire.simps quiescent_def settle_unfold
    by (auto simp: render_pass_fields cells_def deps_defs split: if_splits option.splits)
next
  case ExitTimeout
  assume "quiescent w"
  then show ?thesis
    unfolding ExitTimeout fire.simps quiescent_def settle_unfold
    by (auto simp: render_pass_fields cells_def deps_defs split: if_splits option.splits)
qed

lemma quiescent_step: "quiescent w \<Longrightarrow> quiescent (step e w)"
  by (cases e) (simp_all add: quiescent_evaluate quiescent_fire)

lemma quiescent_run: "quiescent w \<Longrightarrow> quiescent (run evs w)"
  unfolding run_def by (induction evs arbitrary: w) (simp_all add: quiescent_step)

lemma quiescent_reachable: "quiescent (run evs (mount v c))"
  by (rule quiescent_run) (rule quiescent_mount)

lemmas config_defs = shared_config_def separate_config_def isSharedConfig_def property_def
  exitTransitionDuration_of_def enterTransitionDuration_of_def initialEnter_of_def

lemmas output_defs = usePresence_def isExiting_def isEntering_def isAnimating_def

lemma run_Nil: "run [] w = w"
  by (simp add: run_def)

lemma run_Cons: "run (e # evs) w = run evs (step e w)"
  by (simp add: run_def)

subsection \<open>Every run of the second machine is an execution of the first\<close>

lemma render_pass_idle:
  assumes "committed_exit w = Some (deps_exit w)"
    and "committed_frame w = Some (deps_frame w)"
    and "committed_enter w = Some (deps_enter w)"
  shows "render_pass w = w"
  using assms by (cases w) (auto simp: render_pass_def Let_def deps_defs)

lemma render_pass_twice:
  assumes "cells (render_pass w) = cells w"
  shows "render_pass (render_pass w) = render_pass w"
proof (rule render_pass_idle)
  have same: "animateIsVisible (render_pass w) = animateIsVisible w"
    "isMounted (render_pass w) = isMounted w" "hasEntered (render_pass w) = hasEntered w"
    using assms by (simp_all add: cells_def)
  show "committed_exit (render_pass w) = Some (deps_exit (render_pass w))"
    by (simp add: render_pass_committed render_pass_deps_exit)
  show "committed_frame (render_pass w) = Some (deps_frame (render_pass w))"
    by (simp add: render_pass_committed deps_frame_def same render_pass_isVisible
        render_pass_opts)
  show "committed_enter (render_pass w) = Some (deps_enter (render_pass w))"
    by (simp add: render_pass_committed deps_enter_def same render_pass_opts)
qed

lemma settle_two_renders: "settle w = render_pass (render_pass w)"
  by (simp add: settle_unfold render_pass_twice)

lemma exec_Nil: "exec [] w = w"
  by (simp add: exec_def)

lemma exec_Cons: "exec (a # acts) w = exec acts (act a w)"
  by (simp add: exec_def)

lemma exec_append: "exec (xs @ ys) w = exec ys (exec xs w)"
  by (simp add: exec_def)

lemma mount_exec: "mount v c = exec [Rerender] (first_render v c)"
  by (simp add: mount_def first_render_def exec_def settle_unfold render_pass_twice)

lemma evaluate_exec: "evaluate v c w = exec (schedule (Evaluate v c)) w"
  by (simp add: evaluate_def exec_def settle_two_renders)

lemma fire_exec:
  assumes "quiescent w"
  shows "fire cb w = exec (schedule (Fired cb)) w"
proof -
  have idle: "render_pass w = w"
    using assms by (intro render_pass_idle) (simp_all add: quiescent_def)
  show ?thesis
    by (cases cb) (simp_all add: exec_def settle_two_renders idle split: option.splits)
qed

lemma step_exec: "quiescent w \<Longrightarrow> step e w = exec (schedule e) w"
  by (cases e) (simp_all add: evaluate_exec fire_exec del: schedule.simps)

lemma run_exec:
  "quiescent w \<Longrightarrow> run evs w = exec (concat (map schedule evs)) w"
proof (induction evs arbitrary: w)
  case Nil
  show ?case by (simp add: run_Nil exec_Nil)
next
  case (Cons e evs)
  have "run (e # evs) w = run evs (step e w)"
    by (rule run_Cons)
  also have "\<dots> = exec (concat (map schedule evs)) (step e w)"
    using Cons.prems by (intro Cons.IH quiescent_step)
  also have "\<dots> = exec (concat (map schedule (e # evs))) w"
    using Cons.prems by (simp add: step_exec exec_append)
  finally show ?case .
qed

lemma run_is_exec:
  "run evs (mount v c) = exec (Rerender # concat (map schedule evs)) (first_render v c)"
  using run_exec [OF quiescent_mount, of evs v c]
  by (simp add: mount_exec exec_Cons exec_Nil)

subsection \<open>What every event does to the state cells\<close>

lemma evaluate_cells:
  assumes "quiescent w"
  shows "isVisible (evaluate v c w) = v" and "opts (evaluate v c w) = c"
    and "isMounted (evaluate v c w) = (isMounted w \<or> v)"
    and "animateIsVisible (evaluate v c w) = (animateIsVisible w \<and> v)"
    and "hasEntered (evaluate v c w) = (hasEntered w \<and> v)"
  using assms unfolding quiescent_def evaluate_def settle_unfold
  by (auto simp: render_pass_fields cells_def deps_defs split: if_splits)

lemma fire_AnimationFrame_cells:
  assumes "quiescent w"
  shows "isVisible (fire AnimationFrame w) = isVisible w"
    and "opts (fire AnimationFrame w) = opts w"
    and "isMounted (fire AnimationFrame w) = isMounted w"
    and "animateIsVisible (fire AnimationFrame w) = (animateIsVisible w \<or> isVisible w)"
    and "hasEntered (fire AnimationFrame w) = hasEntered w"
  using assms unfolding quiescent_def fire.simps settle_unfold
  by (auto simp: render_pass_fields cells_def deps_defs split: if_splits)

lemma fire_EnterTimeout_cells:
  assumes "quiescent w"
  shows "isVisible (fire EnterTimeout w) = isVisible w"
    and "opts (fire EnterTimeout w) = opts w"
    and "isMounted (fire EnterTimeout w) = isMounted w"
    and "animateIsVisible (fire EnterTimeout w) = animateIsVisible w"
    and "hasEntered (fire EnterTimeout w) = animateIsVisible w"
  using assms unfolding quiescent_def fire.simps settle_unfold
  by (auto simp: render_pass_fields cells_def deps_defs split: if_splits option.splits)

lemma fire_ExitTimeout_cells:
  assumes "quiescent w"
  shows "isVisible (fire ExitTimeout w) = isVisible w"
    and "opts (fire ExitTimeout w) = opts w"
    and "isMounted (fire ExitTimeout w) = isVisible w"
    and "animateIsVisible (fire ExitTimeout w) = animateIsVisible w"
    and "hasEntered (fire ExitTimeout w) = hasEntered w"
  using assms unfolding quiescent_def fire.simps settle_unfold
  by (auto simp: render_pass_fields cells_def deps_defs split: if_splits option.splits)

lemma mount_cells:
  shows "isVisible (mount v c) = v" and "opts (mount v c) = c"
    and "isMounted (mount v c) = v"
    and "animateIsVisible (mount v c) = (v \<and> \<not> initialEnter_of c)"
    and "hasEntered (mount v c) = (v \<and> \<not> initialEnter_of c)"
  unfolding mount_def settle_unfold
  by (auto simp: init_def render_pass_fields cells_def deps_defs)

lemma quiescent_slots:
  assumes "quiescent w"
  shows "animationFrame w = (isVisible w \<and> \<not> animateIsVisible w)"
    and "enterTimeout w =
           (if animateIsVisible w \<and> \<not> hasEntered w
            then Some (enterTransitionDuration_of (opts w)) else None)"
    and "isVisible w \<Longrightarrow> exitTimeout w = None"
    and "\<not> isVisible w \<Longrightarrow> isMounted w \<Longrightarrow>
           exitTimeout w = Some (exitTransitionDuration_of (opts w))"
    and "exitTimeout w = None \<or> exitTimeout w = Some (exitTransitionDuration_of (opts w))"
  using assms unfolding quiescent_def by (auto split: if_splits)

lemma quiescent_cells:
  assumes "quiescent w"
  shows "isVisible w \<Longrightarrow> isMounted w"
    and "animateIsVisible w \<Longrightarrow> isVisible w"
    and "hasEntered w \<Longrightarrow> animateIsVisible w"
  using assms unfolding quiescent_def by (auto split: if_splits)

lemma exitTimeout_fired:
  "quiescent w \<Longrightarrow> exitTimeout (fire ExitTimeout w) = None"
  unfolding quiescent_def fire.simps settle_unfold
  by (auto simp: render_pass_fields cells_def deps_defs split: if_splits option.splits)

subsection \<open>Callbacks that are not pending\<close>

lemma fire_not_pending:
  "\<not> animationFrame w \<Longrightarrow> fire AnimationFrame w = w"
  "enterTimeout w = None \<Longrightarrow> fire EnterTimeout w = w"
  "exitTimeout w = None \<Longrightarrow> fire ExitTimeout w = w"
  by simp_all

lemma run_idle:
  assumes "\<not> animationFrame w" and "enterTimeout w = None" and "exitTimeout w = None"
  shows "run (map Fired cbs) w = w"
proof (induction cbs)
  case Nil
  show ?case by (simp add: run_Nil)
next
  case (Cons cb cbs)
  have "fire cb w = w"
    using assms by (cases cb) (simp_all add: fire_not_pending)
  with Cons show ?case by (simp add: run_Cons)
qed

lemma run_only_exit_pending:
  assumes q: "quiescent w" and hidden: "\<not> isVisible w"
  shows "run (map Fired cbs) w = (if ExitTimeout \<in> set cbs then fire ExitTimeout w else w)"
proof (induction cbs)
  case Nil
  show ?case by (simp add: run_Nil)
next
  case (Cons cb cbs)
  have a: "\<not> animateIsVisible w"
    using quiescent_cells(2) [OF q] hidden by blast
  have frame: "\<not> animationFrame w" and enter: "enterTimeout w = None"
    using quiescent_slots(1,2) [OF q] hidden a by simp_all
  show ?case
  proof (cases cb)
    case AnimationFrame
    with Cons frame show ?thesis by (simp add: run_Cons fire_not_pending)
  next
    case EnterTimeout
    with Cons enter show ?thesis by (simp add: run_Cons fire_not_pending)
  next
    case ExitTimeout
    define u where "u = fire ExitTimeout w"
    have qu: "quiescent u"
      unfolding u_def using q by (rule quiescent_fire)
    have cu: "\<not> isVisible u" "\<not> animateIsVisible u"
      using fire_ExitTimeout_cells [OF q] hidden a by (simp_all add: u_def)
    have "\<not> animationFrame u" and "enterTimeout u = None"
      using quiescent_slots(1,2) [OF qu] cu by simp_all
    moreover have "exitTimeout u = None"
      unfolding u_def using q by (rule exitTimeout_fired)
    ultimately have "run (map Fired cbs) u = u"
      by (rule run_idle)
    with ExitTimeout show ?thesis by (simp add: run_Cons u_def)
  qed
qed

subsection \<open>When every call is rendered out before the next callback\<close>

text \<open>
  In the runs of the second machine an instance that is not mounted is not shown and
  has not entered, and hiding a visible instance leaves the exit timeout as the only
  pending callback. Both rest on the re-render of the hiding call coming before the
  enter timeout; the first machine does not promise that.
\<close>

lemma settled_unmounted_is_fully_exited:
  "\<not> isMounted (run evs (mount v c)) \<Longrightarrow>
   \<not> animateIsVisible (run evs (mount v c)) \<and> \<not> hasEntered (run evs (mount v c))"
  using quiescent_reachable [of evs v c] unfolding quiescent_def
  by (auto split: if_splits)

lemma settled_hide_leaves_only_exit_timeout:
  assumes "isVisible (run evs (mount v0 c0))"
  shows "let w = run evs (mount v0 c0); w' = evaluate False c w
         in exitTimeout w = None \<and>
            \<not> animationFrame w' \<and> enterTimeout w' = None \<and>
            exitTimeout w' = Some (exitTransitionDuration_of c) \<and>
            \<not> animateIsVisible (run (map Fired cbs) w') \<and>
            \<not> hasEntered (run (map Fired cbs) w') \<and>
            run (map Fired cbs) w' =
              (if ExitTimeout \<in> set cbs then fire ExitTimeout w' else w') \<and>
            \<not> isMounted (fire ExitTimeout w')"
proof -
  define w where "w = run evs (mount v0 c0)"
  define w' where "w' = evaluate False c w"
  have q: "quiescent w"
    unfolding w_def by (rule quiescent_reachable)
  have q': "quiescent w'"
    unfolding w'_def using q by (rule quiescent_evaluate)
  have v: "isVisible w"
    using assms by (simp add: w_def)
  have m: "isMounted w"
    using quiescent_cells(1) [OF q] v by blast
  have c': "\<not> isVisible w'" "opts w' = c" "isMounted w'"
    "\<not> animateIsVisible w'" "\<not> hasEntered w'"
    using evaluate_cells [OF q, of False c] m by (simp_all add: w'_def)
  have s: "exitTimeout w = None"
    using quiescent_slots(3) [OF q] v by simp
  have s': "\<not> animationFrame w'" "enterTimeout w' = None"
    "exitTimeout w' = Some (exitTransitionDuration_of c)"
    using quiescent_slots(1,2,4) [OF q'] c' by simp_all
  have r: "run (map Fired cbs) w' =
             (if ExitTimeout \<in> set cbs then fire ExitTimeout w' else w')"
    using q' c'(1) by (rule run_only_exit_pending)
  have f: "\<not> animateIsVisible (fire ExitTimeout w')" "\<not> hasEntered (fire ExitTimeout w')"
    "\<not> isMounted (fire ExitTimeout w')"
    using fire_ExitTimeout_cells [OF q'] c' by simp_all
  have "exitTimeout w = None \<and>
        \<not> animationFrame w' \<and> enterTimeout w' = None \<and>
        exitTimeout w' = Some (exitTransitionDuration_of c) \<and>
        \<not> animateIsVisible (run (map Fired cbs) w') \<and>
        \<not> hasEntered (run (map Fired cbs) w') \<and>
        run (map Fired cbs) w' =
          (if ExitTimeout \<in> set cbs then fire ExitTimeout w' else w') \<and>
        \<not> isMounted (fire ExitTimeout w')"
    using s s' r f c' by simp
  then show ?thesis
    unfolding Let_def w'_def w_def .
qed

lemmas eval_simps = run_Nil run_Cons evaluate_def mount_def init_def
  settle_unfold cells_def render_pass_def Let_def effect_defs deps_defs config_defs
  no_config_def exec_def first_render_def

section \<open>The claims\<close>

text \<open>
  Claim C1 says that an instance with \<open>isMounted = false\<close> always has
  \<open>animateIsVisible = false\<close> and \<open>hasEntered = false\<close>. The third effect does not
  list \<open>isVisible\<close> among its dependencies, so the call that hides an entering element
  leaves the enter timeout pending until React renders again. In the execution below
  the timeout fires in between and sets \<open>hasEntered\<close> after the first effect has reset
  it; the exit timeout then unmounts. The instance ends unmounted with
  \<open>hasEntered = true\<close>, no callback pending and no render outstanding, and the next
  time the element is shown the hook never reports \<open>isEntering\<close>.
\<close>

theorem stale_enter_timeout_breaks_invariant:
  "let w = exec [Rerender, Call True (shared_config 100), Rerender,
                 Callback AnimationFrame, Rerender,
                 Call False (shared_config 100), Callback EnterTimeout, Rerender,
                 Callback ExitTimeout, Rerender]
             (first_render False (shared_config 100));
       w' = exec [Call True (shared_config 100), Rerender, Callback AnimationFrame,
                  Rerender] w
   in \<not> isMounted w \<and> hasEntered w \<and> \<not> animateIsVisible w \<and> \<not> isVisible w \<and>
      exitTimeout w = None \<and> \<not> animationFrame w \<and> enterTimeout w = None \<and>
      render_pass w = w \<and>
      isVisible w' \<and> animateIsVisible w' \<and> \<not> out_isEntering (usePresence w') \<and>
      enterTimeout w' = None"
  unfolding Let_def by (simp add: eval_simps output_defs)

text \<open>
  Claim C2. In every state and for every argument \<open>isVisible\<close>, the derived outputs
  \<open>isEntering\<close> (\<open>isVisible && !hasEntered\<close>) and \<open>isExiting\<close>
  (\<open>isMounted && !isVisible\<close>) are never both true: for any instance at all, for the
  object a render returns, and for the instance after an evaluation of a reachable one.
\<close>

theorem entering_exiting_exclusive:
  "\<not> (isEntering w \<and> isExiting w) \<and>
   \<not> (out_isEntering (usePresence w) \<and> out_isExiting (usePresence w)) \<and>
   \<not> (out_isEntering (usePresence (evaluate v c (run evs (mount v0 c0)))) \<and>
      out_isExiting (usePresence (evaluate v c (run evs (mount v0 c0)))))"
  by (simp add: output_defs)

text \<open>
  Claim C5. The first render takes \<open>isMounted = v\<close>,
  \<open>animateIsVisible = (initialEnter ? false : v)\<close> and
  \<open>hasEntered = (initialEnter ? false : v)\<close>. Constructed with \<open>isVisible = true\<close> and
  \<open>initialEnter\<close> false or absent, the hook returns at once mounted, visible and not
  animating, on the first render and after its effects; with \<open>initialEnter = true\<close> it
  returns mounted, not visible and entering, and the frame is requested.
\<close>

theorem initial_state:
  "isMounted (init v c) = v \<and>
   animateIsVisible (init v c) = (if initialEnter_of c then False else v) \<and>
   hasEntered (init v c) = (if initialEnter_of c then False else v) \<and>
   usePresence (init True (c\<lparr>initialEnter := Some False\<rparr>)) =
     \<lparr>out_isMounted = True, out_isVisible = True, out_isAnimating = False,
      out_isEntering = False, out_isExiting = False\<rparr> \<and>
   usePresence (init True (c\<lparr>initialEnter := None\<rparr>)) =
     \<lparr>out_isMounted = True, out_isVisible = True, out_isAnimating = False,
      out_isEntering = False, out_isExiting = False\<rparr> \<and>
   usePresence (mount True (c\<lparr>initialEnter := Some False\<rparr>)) =
     \<lparr>out_isMounted = True, out_isVisible = True, out_isAnimating = False,
      out_isEntering = False, out_isExiting = False\<rparr> \<and>
   hasEntered (mount True (c\<lparr>initialEnter := Some False\<rparr>)) \<and>
   usePresence (init True (c\<lparr>initialEnter := Some True\<rparr>)) =
     \<lparr>out_isMounted = True, out_isVisible = False, out_isAnimating = True,
      out_isEntering = True, out_isExiting = False\<rparr> \<and>
   usePresence (mount True (c\<lparr>initialEnter := Some True\<rparr>)) =
     \<lparr>out_isMounted = True, out_isVisible = False, out_isAnimating = True,
      out_isEntering = True, out_isExiting = False\<rparr> \<and>
   animationFrame (mount True (c\<lparr>initialEnter := Some True\<rparr>))"
  unfolding mount_def settle_unfold
  by (simp add: init_def initialEnter_of_def output_defs render_pass_fields cells_def deps_defs)

text \<open>
  Claim C9. In every environment, with a \<open>document\<close> or without, the guard
  \<open>typeof document !== undefined\<close> is true, so the branch that reads
  \<open>document.body.offsetHeight\<close> is always taken and never skipped.
\<close>

theorem reflow_guard_always_true:
  "reflow_guard env \<and> force_reflow env \<noteq> Skipped"
  by (cases env)
    (simp_all add: reflow_guard_def force_reflow_def strict_not_equal_def
      typeof_document_def)

text \<open>
  Claim C10. For a configuration object that has the property \<open>transitionDuration\<close>,
  whatever its value and whatever \<open>enterTransitionDuration\<close> and
  \<open>exitTransitionDuration\<close> the object has as well, the test \<open>isSharedConfig\<close> holds
  and both resolved durations are the value of that property. The test is one of
  presence only: the same object without the property is not shared.
\<close>

theorem shared_duration_takes_precedence:
  assumes "transitionDuration c = Some x"
  shows "isSharedConfig c \<and>
         enterTransitionDuration_of c = x \<and>
         exitTransitionDuration_of c = x \<and>
         \<not> isSharedConfig (c\<lparr>transitionDuration := None\<rparr>)"
  using assms by (simp add: config_defs)

theorem shared_duration_takes_precedence_witness:
  "transitionDuration
     \<lparr>transitionDuration = Some (Number 100), enterTransitionDuration = Some (Number 50),
      exitTransitionDuration = Some (Number 200), initialEnter = None\<rparr> =
     Some (Number 100) \<and>
   isSharedConfig
     \<lparr>transitionDuration = Some (Number 100), enterTransitionDuration = Some (Number 50),
      exitTransitionDuration = Some (Number 200), initialEnter = None\<rparr> \<and>
   enterTransitionDuration_of
     \<lparr>transitionDuration = Some (Number 100), enterTransitionDuration = Some (Number 50),
      exitTransitionDuration = Some (Number 200), initialEnter = None\<rparr> = Number 100 \<and>
   exitTransitionDuration_of
     \<lparr>transitionDuration = Some (Number 100), enterTransitionDuration = Some (Number 50),
      exitTransitionDuration = Some (Number 200), initialEnter = None\<rparr> = Number 100 \<and>
   transitionDuration
     \<lparr>transitionDuration = Some Undefined, enterTransitionDuration = Some (Number 50),
      exitTransitionDuration = Some (Number 200), initialEnter = None\<rparr> =
     Some Undefined \<and>
   isSharedConfig
     \<lparr>transitionDuration = Some Undefined, enterTransitionDuration = Some (Number 50),
      exitTransitionDuration = Some (Number 200), initialEnter = None\<rparr> \<and>
   enterTransitionDuration_of
     \<lparr>transitionDuration = Some Undefined, enterTransitionDuration = Some (Number 50),
      exitTransitionDuration = Some (Number 200), initialEnter = None\<rparr> = Undefined \<and>
   exitTransitionDuration_of
     \<lparr>transitionDuration = Some Undefined, enterTransitionDuration = Some (Number 50),
      exitTransitionDuration = Some (Number 200), initialEnter = None\<rparr> = Undefined"
proof -
  have number: "transitionDuration
     \<lparr>transitionDuration = Some (Number 100), enterTransitionDuration = Some (Number 50),
      exitTransitionDuration = Some (Number 200), initialEnter = None\<rparr> =
     Some (Number 100)"
    by simp
  have undefined: "transitionDuration
     \<lparr>transitionDuration = Some Undefined, enterTransitionDuration = Some (Number 50),
      exitTransitionDuration = Some (Number 200), initialEnter = None\<rparr> =
     Some Undefined"
    by simp
  from number undefined
    shared_duration_takes_precedence [OF number]
    shared_duration_takes_precedence [OF undefined]
  show ?thesis
    by simp
qed

text \<open>
  Claim C3. From any reachable instance that is not mounted, the evaluation
  \<open>evaluate(true, {transitionDuration: 100})\<close> yields, before any callback,
  \<open>isMounted = true\<close>, output \<open>isVisible = false\<close> and \<open>isEntering = true\<close>, with the
  frame requested; after the frame callback the output is \<open>isVisible = true\<close>,
  \<open>isEntering = true\<close> and the enter timeout runs with delay 100; after that timeout
  the output is \<open>isEntering = false\<close>, \<open>isVisible = true\<close> and nothing is pending.
  The outputs are those of the last render of each evaluation: the render that first
  sees \<open>isVisible = true\<close> still returns \<open>isMounted = false\<close>, and the first effect
  makes React render again at once.
\<close>

theorem mount_then_settle:
  assumes "\<not> isMounted (run evs (mount v0 c0))"
  shows "let w0 = run evs (mount v0 c0);
             w1 = evaluate True (shared_config 100) w0;
             w2 = fire AnimationFrame w1;
             w3 = fire EnterTimeout w2
         in out_isMounted (usePresence w1) \<and> \<not> out_isVisible (usePresence w1) \<and>
            out_isEntering (usePresence w1) \<and> animationFrame w1 \<and>
            out_isVisible (usePresence w2) \<and> out_isEntering (usePresence w2) \<and>
            enterTimeout w2 = Some (Number 100) \<and>
            \<not> out_isEntering (usePresence w3) \<and> out_isVisible (usePresence w3) \<and>
            out_isMounted (usePresence w3) \<and> \<not> out_isAnimating (usePresence w3) \<and>
            exitTimeout w3 = None \<and> \<not> animationFrame w3 \<and> enterTimeout w3 = None"
proof -
  define w0 where "w0 = run evs (mount v0 c0)"
  define w1 where "w1 = evaluate True (shared_config 100) w0"
  define w2 where "w2 = fire AnimationFrame w1"
  define w3 where "w3 = fire EnterTimeout w2"
  have q0: "quiescent w0"
    unfolding w0_def by (rule quiescent_reachable)
  have q1: "quiescent w1"
    unfolding w1_def using q0 by (rule quiescent_evaluate)
  have q2: "quiescent w2"
    unfolding w2_def using q1 by (rule quiescent_fire)
  have q3: "quiescent w3"
    unfolding w3_def using q2 by (rule quiescent_fire)
  have c0: "\<not> animateIsVisible w0" "\<not> hasEntered w0"
    using quiescent_cells [OF q0] assms by (auto simp: w0_def)
  have c1: "isVisible w1" "opts w1 = shared_config 100" "isMounted w1"
    "\<not> animateIsVisible w1" "\<not> hasEntered w1"
    using evaluate_cells [OF q0, of True "shared_config 100"] c0 by (simp_all add: w1_def)
  have c2: "isVisible w2" "opts w2 = shared_config 100" "isMounted w2"
    "animateIsVisible w2" "\<not> hasEntered w2"
    using fire_AnimationFrame_cells [OF q1] c1 by (simp_all add: w2_def)
  have c3: "isVisible w3" "opts w3 = shared_config 100" "isMounted w3"
    "animateIsVisible w3" "hasEntered w3"
    using fire_EnterTimeout_cells [OF q2] c2 by (simp_all add: w3_def)
  have s1: "animationFrame w1"
    using quiescent_slots(1) [OF q1] c1 by simp
  have s2: "enterTimeout w2 = Some (Number 100)"
    using quiescent_slots(2) [OF q2] c2 by (simp add: config_defs)
  have s3: "exitTimeout w3 = None" "\<not> animationFrame w3" "enterTimeout w3 = None"
    using quiescent_slots(1,2,3) [OF q3] c3 by simp_all
  have "out_isMounted (usePresence w1) \<and> \<not> out_isVisible (usePresence w1) \<and>
        out_isEntering (usePresence w1) \<and> animationFrame w1 \<and>
        out_isVisible (usePresence w2) \<and> out_isEntering (usePresence w2) \<and>
        enterTimeout w2 = Some (Number 100) \<and>
        \<not> out_isEntering (usePresence w3) \<and> out_isVisible (usePresence w3) \<and>
        out_isMounted (usePresence w3) \<and> \<not> out_isAnimating (usePresence w3) \<and>
        exitTimeout w3 = None \<and> \<not> animationFrame w3 \<and> enterTimeout w3 = None"
    using c1 c2 c3 s1 s2 s3 by (simp add: output_defs)
  then show ?thesis
    unfolding Let_def w3_def w2_def w1_def w0_def .
qed

theorem mount_then_settle_witness:
  "\<not> isMounted (run [] (mount False (separate_config 50 200))) \<and>
   (let w0 = run [] (mount False (separate_config 50 200));
        w1 = evaluate True (shared_config 100) w0;
        w2 = fire AnimationFrame w1;
        w3 = fire EnterTimeout w2
    in out_isMounted (usePresence w1) \<and> \<not> out_isVisible (usePresence w1) \<and>
       out_isEntering (usePresence w1) \<and> animationFrame w1 \<and>
       out_isVisible (usePresence w2) \<and> out_isEntering (usePresence w2) \<and>
       enterTimeout w2 = Some (Number 100) \<and>
       \<not> out_isEntering (usePresence w3) \<and> out_isVisible (usePresence w3) \<and>
       out_isMounted (usePresence w3) \<and> \<not> out_isAnimating (usePresence w3) \<and>
       exitTimeout w3 = None \<and> \<not> animationFrame w3 \<and> enterTimeout w3 = None)"
proof -
  have unmounted: "\<not> isMounted (run [] (mount False (separate_config 50 200)))"
    by (simp add: eval_simps)
  from unmounted mount_then_settle [OF unmounted] show ?thesis
    by simp
qed

text \<open>
  Claim C4. From any reachable entered instance (\<open>isMounted\<close>, \<open>animateIsVisible\<close> and
  \<open>hasEntered\<close> all true), the evaluation \<open>evaluate(false, {transitionDuration: 100})\<close>
  sets \<open>hasEntered = false\<close> and \<open>animateIsVisible = false\<close> without waiting for a
  callback, so the output is \<open>isVisible = false\<close>, \<open>isExiting = true\<close>,
  \<open>isMounted = true\<close>, and the exit timeout runs with delay 100; after it fires the
  output is \<open>isMounted = false\<close> and \<open>isExiting = false\<close>.
\<close>

theorem exit_then_unmount:
  assumes "isMounted (run evs (mount v0 c0))"
    and "animateIsVisible (run evs (mount v0 c0))"
    and "hasEntered (run evs (mount v0 c0))"
  shows "let w0 = run evs (mount v0 c0);
             w1 = evaluate False (shared_config 100) w0;
             w2 = fire ExitTimeout w1
         in \<not> hasEntered w1 \<and> \<not> animateIsVisible w1 \<and>
            \<not> out_isVisible (usePresence w1) \<and> out_isExiting (usePresence w1) \<and>
            out_isMounted (usePresence w1) \<and> exitTimeout w1 = Some (Number 100) \<and>
            \<not> out_isMounted (usePresence w2) \<and> \<not> out_isExiting (usePresence w2)"
proof -
  define w0 where "w0 = run evs (mount v0 c0)"
  define w1 where "w1 = evaluate False (shared_config 100) w0"
  define w2 where "w2 = fire ExitTimeout w1"
  have q0: "quiescent w0"
    unfolding w0_def by (rule quiescent_reachable)
  have q1: "quiescent w1"
    unfolding w1_def using q0 by (rule quiescent_evaluate)
  have c1: "\<not> isVisible w1" "opts w1 = shared_config 100" "isMounted w1"
    "\<not> animateIsVisible w1" "\<not> hasEntered w1"
    using evaluate_cells [OF q0, of False "shared_config 100"] assms
    by (simp_all add: w1_def w0_def)
  have c2: "\<not> isVisible w2" "\<not> isMounted w2"
    using fire_ExitTimeout_cells [OF q1] c1 by (simp_all add: w2_def)
  have s1: "exitTimeout w1 = Some (Number 100)"
    using quiescent_slots(4) [OF q1] c1 by (simp add: config_defs)
  have "\<not> hasEntered w1 \<and> \<not> animateIsVisible w1 \<and>
        \<not> out_isVisible (usePresence w1) \<and> out_isExiting (usePresence w1) \<and>
        out_isMounted (usePresence w1) \<and> exitTimeout w1 = Some (Number 100) \<and>
        \<not> out_isMounted (usePresence w2) \<and> \<not> out_isExiting (usePresence w2)"
    using c1 c2 s1 by (simp add: output_defs)
  then show ?thesis
    unfolding Let_def w2_def w1_def w0_def .
qed

theorem exit_then_unmount_witness:
  "isMounted (run [Evaluate True (shared_config 100), Fired AnimationFrame, Fired EnterTimeout]
       (mount False (shared_config 100))) \<and>
   animateIsVisible (run [Evaluate True (shared_config 100), Fired AnimationFrame, Fired EnterTimeout]
       (mount False (shared_config 100))) \<and>
   hasEntered (run [Evaluate True (shared_config 100), Fired AnimationFrame, Fired EnterTimeout]
       (mount False (shared_config 100))) \<and>
   (let w0 = run [Evaluate True (shared_config 100), Fired AnimationFrame, Fired EnterTimeout]
               (mount False (shared_config 100));
        w1 = evaluate False (shared_config 100) w0;
        w2 = fire ExitTimeout w1
    in \<not> hasEntered w1 \<and> \<not> animateIsVisible w1 \<and>
       \<not> out_isVisible (usePresence w1) \<and> out_isExiting (usePresence w1) \<and>
       out_isMounted (usePresence w1) \<and> exitTimeout w1 = Some (Number 100) \<and>
       \<not> out_isMounted (usePresence w2) \<and> \<not> out_isExiting (usePresence w2))"
proof -
  have m: "isMounted (run [Evaluate True (shared_config 100), Fired AnimationFrame, Fired EnterTimeout]
       (mount False (shared_config 100)))"
    by (simp add: eval_simps)
  have a: "animateIsVisible (run [Evaluate True (shared_config 100), Fired AnimationFrame, Fired EnterTimeout]
       (mount False (shared_config 100)))"
    by (simp add: eval_simps)
  have h: "hasEntered (run [Evaluate True (shared_config 100), Fired AnimationFrame, Fired EnterTimeout]
       (mount False (shared_config 100)))"
    by (simp add: eval_simps)
  from m a h exit_then_unmount [OF m a h] show ?thesis
    by simp
qed

text \<open>
  Claim C6 says that a callback superseded by the flip from visible to not visible
  never fires afterwards. For the frame request this is what the hook does: the second
  effect depends on \<open>isVisible\<close>, and its cleanup cancels the request in the effect
  flush of the hiding call. The enter timeout is not cancelled there: the third effect
  does not depend on \<open>isVisible\<close>, so its cleanup runs only in the render that follows
  the state change. In the execution below the element is entering when it is hidden;
  after the hiding call the enter timeout is still pending beside the exit timeout, it
  fires, and \<open>hasEntered\<close> is true from then on.
\<close>

theorem stale_enter_timeout_fires_after_hiding:
  "let entering = exec [Rerender, Call True (shared_config 100), Rerender,
                        Callback AnimationFrame, Rerender]
                    (first_render False (shared_config 100));
       hidden = act (Call False (shared_config 100)) entering;
       fired = act (Callback EnterTimeout) hidden;
       waiting = exec [Rerender, Call True (shared_config 100), Rerender]
                   (first_render False (shared_config 100))
   in isVisible entering \<and> enterTimeout entering = Some (Number 100) \<and>
      \<not> isVisible hidden \<and> \<not> hasEntered hidden \<and>
      exitTimeout hidden = Some (Number 100) \<and>
      enterTimeout hidden = Some (Number 100) \<and>
      hasEntered fired \<and> hasEntered (act Rerender fired) \<and>
      hasEntered (exec [Rerender, Callback ExitTimeout, Rerender] fired) \<and>
      animationFrame waiting \<and>
      \<not> animationFrame (act (Call False (shared_config 100)) waiting)"
  unfolding Let_def by (simp add: eval_simps)

text \<open>
  Claim C7. A configuration without \<open>transitionDuration\<close> resolves to its
  \<open>enterTransitionDuration\<close> and \<open>exitTransitionDuration\<close>, one with
  \<open>transitionDuration\<close> resolves both to that value. From any reachable instance
  that has not entered (the unmounted one among them), showing it with a configuration
  and letting the frame fire schedules the enter timeout with the resolved enter
  duration of that configuration; from any reachable mounted instance (the entered one
  among them), hiding it with a configuration leaves the exit timeout scheduled with
  the resolved exit duration of that configuration. Any timeout pending in a reachable
  instance carries the duration resolved from the latest configuration.
\<close>

theorem timers_use_resolved_durations:
  assumes "transitionDuration cs = None" and "transitionDuration ch = Some x"
    and "\<not> hasEntered (run evs (mount v0 c0))"
    and "isMounted (run evs' (mount v0' c0'))"
  shows "enterTransitionDuration_of cs = property (enterTransitionDuration cs) \<and>
         exitTransitionDuration_of cs = property (exitTransitionDuration cs) \<and>
         enterTransitionDuration_of ch = x \<and>
         exitTransitionDuration_of ch = x \<and>
         enterTimeout (fire AnimationFrame (evaluate True c (run evs (mount v0 c0)))) =
           Some (enterTransitionDuration_of c) \<and>
         exitTimeout (evaluate False c (run evs' (mount v0' c0'))) =
           Some (exitTransitionDuration_of c) \<and>
         (enterTimeout (run evs (mount v0 c0)) = None \<or>
          enterTimeout (run evs (mount v0 c0)) =
            Some (enterTransitionDuration_of (opts (run evs (mount v0 c0))))) \<and>
         (exitTimeout (run evs (mount v0 c0)) = None \<or>
          exitTimeout (run evs (mount v0 c0)) =
            Some (exitTransitionDuration_of (opts (run evs (mount v0 c0)))))"
proof -
  define w where "w = run evs (mount v0 c0)"
  define u where "u = run evs' (mount v0' c0')"
  define w1 where "w1 = evaluate True c w"
  define w2 where "w2 = fire AnimationFrame w1"
  define u1 where "u1 = evaluate False c u"
  have q: "quiescent w"
    unfolding w_def by (rule quiescent_reachable)
  have qu: "quiescent u"
    unfolding u_def by (rule quiescent_reachable)
  have q1: "quiescent w1"
    unfolding w1_def using q by (rule quiescent_evaluate)
  have q2: "quiescent w2"
    unfolding w2_def using q1 by (rule quiescent_fire)
  have qu1: "quiescent u1"
    unfolding u1_def using qu by (rule quiescent_evaluate)
  have h: "\<not> hasEntered w"
    using assms(3) by (simp add: w_def)
  have m: "isMounted u"
    using assms(4) by (simp add: u_def)
  have c1: "isVisible w1" "opts w1 = c" "\<not> hasEntered w1"
    using evaluate_cells [OF q, of True c] h by (simp_all add: w1_def)
  have c2: "opts w2 = c" "animateIsVisible w2" "\<not> hasEntered w2"
    using fire_AnimationFrame_cells [OF q1] c1 by (simp_all add: w2_def)
  have cu: "\<not> isVisible u1" "opts u1 = c" "isMounted u1"
    using evaluate_cells [OF qu, of False c] m by (simp_all add: u1_def)
  have s2: "enterTimeout w2 = Some (enterTransitionDuration_of c)"
    using quiescent_slots(2) [OF q2] c2 by simp
  have su: "exitTimeout u1 = Some (exitTransitionDuration_of c)"
    using quiescent_slots(4) [OF qu1] cu by simp
  have s: "enterTimeout w = None \<or> enterTimeout w = Some (enterTransitionDuration_of (opts w))"
    "exitTimeout w = None \<or> exitTimeout w = Some (exitTransitionDuration_of (opts w))"
    using quiescent_slots(2,5) [OF q] by (simp_all split: if_splits)
  have r: "enterTransitionDuration_of cs = property (enterTransitionDuration cs)"
    "exitTransitionDuration_of cs = property (exitTransitionDuration cs)"
    "enterTransitionDuration_of ch = x" "exitTransitionDuration_of ch = x"
    using assms(1,2) by (simp_all add: config_defs)
  show ?thesis
    using r s2 su s by (simp add: w2_def w1_def u1_def w_def u_def)
qed

theorem timers_use_resolved_durations_witness:
  "transitionDuration (separate_config 50 200) = None \<and>
   transitionDuration (shared_config 100) = Some (Number 100) \<and>
   \<not> hasEntered (run [] (mount False no_config)) \<and>
   \<not> isMounted (run [] (mount False no_config)) \<and>
   isMounted (run [Evaluate True (separate_config 50 200), Fired AnimationFrame,
                   Fired EnterTimeout] (mount False no_config)) \<and>
   hasEntered (run [Evaluate True (separate_config 50 200), Fired AnimationFrame,
                    Fired EnterTimeout] (mount False no_config)) \<and>
   enterTransitionDuration_of (separate_config 50 200) = Number 50 \<and>
   exitTransitionDuration_of (separate_config 50 200) = Number 200 \<and>
   enterTransitionDuration_of (shared_config 100) = Number 100 \<and>
   exitTransitionDuration_of (shared_config 100) = Number 100 \<and>
   enterTimeout (fire AnimationFrame (evaluate True (separate_config 50 200)
     (run [] (mount False no_config)))) = Some (Number 50) \<and>
   exitTimeout (evaluate False (separate_config 50 200)
     (run [Evaluate True (separate_config 50 200), Fired AnimationFrame,
           Fired EnterTimeout] (mount False no_config))) = Some (Number 200) \<and>
   enterTimeout (fire AnimationFrame (evaluate True (shared_config 100)
     (run [] (mount False no_config)))) = Some (Number 100) \<and>
   exitTimeout (evaluate False (shared_config 100)
     (run [Evaluate True (separate_config 50 200), Fired AnimationFrame,
           Fired EnterTimeout] (mount False no_config))) = Some (Number 100)"
proof -
  have cs: "transitionDuration (separate_config 50 200) = None"
    by (simp add: config_defs)
  have ch: "transitionDuration (shared_config 100) = Some (Number 100)"
    by (simp add: config_defs)
  have h: "\<not> hasEntered (run [] (mount False no_config))"
    by (simp add: eval_simps)
  have m: "isMounted (run [Evaluate True (separate_config 50 200), Fired AnimationFrame,
                   Fired EnterTimeout] (mount False no_config))"
    by (simp add: eval_simps)
  from cs ch h m
    timers_use_resolved_durations [OF cs ch h m, of "separate_config 50 200"]
    timers_use_resolved_durations [OF cs ch h m, of "shared_config 100"]
  show ?thesis
    by (simp add: eval_simps)
qed

text \<open>
  Claim C8 says that a configuration with a negative duration or without a required
  duration field is rejected. The hook rejects nothing: with the shared duration
  \<open>-5\<close> it constructs the instance and schedules the exit timeout with delay \<open>-5\<close>,
  and with no duration at all it schedules the exit timeout with delay \<open>undefined\<close>.
\<close>

theorem misuse_not_rejected:
  "spec_misuse (shared_config (- 5)) \<and>
   opts (mount True (shared_config (- 5))) = shared_config (- 5) \<and>
   out_isMounted (usePresence (mount True (shared_config (- 5)))) \<and>
   exitTimeout (evaluate False (shared_config (- 5)) (mount True (shared_config (- 5)))) =
     Some (Number (- 5)) \<and>
   spec_misuse no_config \<and>
   opts (mount False no_config) = no_config \<and>
   exitTimeout (mount False no_config) = Some Undefined"
  by (simp add: eval_simps spec_misuse_def negative_duration_def missing_duration_def
      output_defs)

text \<open>
  Claim C8, amended. The hook does not validate its configuration: for every
  configuration that is a misuse in the specification's sense, construction yields an
  instance holding that configuration, mounted as asked; the resolved durations are the
  selected properties unchanged (an absent one is \<open>undefined\<close>), and the exit and enter
  timeouts are scheduled with exactly these values, neither rejected nor clamped.
\<close>

theorem misuse_is_accepted:
  assumes "spec_misuse c"
  shows "opts (mount v c) = c \<and> isMounted (mount v c) = v \<and>
         exitTransitionDuration_of c =
           (if transitionDuration c = None then property (exitTransitionDuration c)
            else property (transitionDuration c)) \<and>
         enterTransitionDuration_of c =
           (if transitionDuration c = None then property (enterTransitionDuration c)
            else property (transitionDuration c)) \<and>
         exitTimeout (evaluate False c (mount True c)) =
           Some (exitTransitionDuration_of c) \<and>
         enterTimeout (fire AnimationFrame (evaluate True c (mount False c))) =
           Some (enterTransitionDuration_of c)"
proof -
  have a: "opts (mount v c) = c" "isMounted (mount v c) = v"
    by (simp_all add: mount_cells)
  have b: "exitTransitionDuration_of c =
           (if transitionDuration c = None then property (exitTransitionDuration c)
            else property (transitionDuration c))"
    "enterTransitionDuration_of c =
           (if transitionDuration c = None then property (enterTransitionDuration c)
            else property (transitionDuration c))"
    by (simp_all add: config_defs)
  define w1 where "w1 = evaluate False c (mount True c)"
  define w2 where "w2 = evaluate True c (mount False c)"
  define w3 where "w3 = fire AnimationFrame w2"
  have q1: "quiescent w1"
    unfolding w1_def by (rule quiescent_evaluate) (rule quiescent_mount)
  have q2: "quiescent w2"
    unfolding w2_def by (rule quiescent_evaluate) (rule quiescent_mount)
  have q3: "quiescent w3"
    unfolding w3_def using q2 by (rule quiescent_fire)
  have c1: "\<not> isVisible w1" "opts w1 = c" "isMounted w1"
    using evaluate_cells [OF quiescent_mount [of True c], of False c]
    by (simp_all add: w1_def mount_cells)
  have h0: "\<not> hasEntered (mount False c)"
    by (simp add: mount_cells)
  have c2: "isVisible w2" "opts w2 = c" "\<not> hasEntered w2"
    using evaluate_cells [OF quiescent_mount [of False c], of True c] h0
    by (simp_all add: w2_def)
  have c3: "opts w3 = c" "animateIsVisible w3" "\<not> hasEntered w3"
    using fire_AnimationFrame_cells [OF q2] c2 by (simp_all add: w3_def)
  have "exitTimeout w1 = Some (exitTransitionDuration_of c)"
    using quiescent_slots(4) [OF q1] c1 by simp
  moreover have "enterTimeout w3 = Some (enterTransitionDuration_of c)"
    using quiescent_slots(2) [OF q3] c3 by simp
  ultimately show ?thesis
    using a b by (simp add: w1_def w2_def w3_def)
qed

theorem misuse_is_accepted_witness:
  "spec_misuse (shared_config (- 5)) \<and>
   opts (mount True (shared_config (- 5))) = shared_config (- 5) \<and>
   isMounted (mount True (shared_config (- 5))) \<and>
   exitTransitionDuration_of (shared_config (- 5)) = Number (- 5) \<and>
   enterTransitionDuration_of (shared_config (- 5)) = Number (- 5) \<and>
   exitTimeout (evaluate False (shared_config (- 5)) (mount True (shared_config (- 5)))) =
     Some (Number (- 5)) \<and>
   enterTimeout (fire AnimationFrame
       (evaluate True (shared_config (- 5)) (mount False (shared_config (- 5))))) =
     Some (Number (- 5))"
proof -
  have misuse: "spec_misuse (shared_config (- 5))"
    by (simp add: spec_misuse_def negative_duration_def config_defs)
  have r: "exitTransitionDuration_of (shared_config (- 5)) = Number (- 5)"
    "enterTransitionDuration_of (shared_config (- 5)) = Number (- 5)"
    by (simp_all add: config_defs)
  from misuse r misuse_is_accepted [OF misuse, of True] show ?thesis
    by simp
qed

end
